theory Spec2Isabelle
  imports Main "HOL-Library.Word" "HOL-Library.Sublist"
begin

section \<open>Data model of \<^verbatim>\<open>handlers.py\<close>\<close>

text \<open>
  Python exceptions are values. Only the classes that the handlers can meet are listed:
  the file and JSON errors of \<^verbatim>\<open>open\<close> and \<^verbatim>\<open>json.load\<close>, the subscript errors, the
  decoding error of \<^verbatim>\<open>bytes.decode\<close>, the \<^verbatim>\<open>TypeError\<close> of subscripting \<^verbatim>\<open>None\<close> or of
  calling an object that is not callable, and the errors of the remote client.
\<close>

datatype exn =
    FileNotFoundError
  | JSONDecodeError
  | KeyError string
  | IndexError
  | UnicodeDecodeError
  | TypeError
  | ConnectionError
  | ClientError string

type_synonym byte = "8 word"
type_synonym bytes = "byte list"

text \<open>A decoded Python \<^verbatim>\<open>str\<close>: the list of its Unicode code points.\<close>

type_synonym ustr = "nat list"

text \<open>What \<^verbatim>\<open>resp.json()\<close> returns and what \<^verbatim>\<open>self.finish\<close> is given: a JSON value.\<close>

datatype json_value =
    JNull
  | JBool bool
  | JNum int
  | JStr string
  | JArr "json_value list"
  | JObj "(string \<times> json_value) list"

text \<open>
  Modelled from the spec: the file \<^verbatim>\<open>maap_environments.json\<close> read by
  \<^verbatim>\<open>get_maap_config\<close> is not part of the sources. Its shape is a list of records
  with the keys \<^verbatim>\<open>default_host\<close>, \<^verbatim>\<open>ade_server\<close> and \<^verbatim>\<open>api_server\<close>. The value under
  \<^verbatim>\<open>ade_server\<close> is described once as a string and once as a collection of host
  patterns; Python's \<^verbatim>\<open>in\<close> accepts both, so both shapes are kept.
\<close>

datatype ade_value = AdeStr string | AdeList "string list"

record environment =
  default_host :: bool
  ade_server :: ade_value
  api_server :: string

section \<open>Python primitives used by the module\<close>

text \<open>\<^verbatim>\<open>sub in s\<close> on two strings: \<^verbatim>\<open>sub\<close> occurs in \<^verbatim>\<open>s\<close> as a contiguous run.\<close>

fun str_contains :: "string \<Rightarrow> string \<Rightarrow> bool" where
  "str_contains sub [] = (sub = [])"
| "str_contains sub (c # s) = (prefix sub (c # s) \<or> str_contains sub s)"

text \<open>
  \<^verbatim>\<open>host in x['ade_server']\<close>: a substring test when the value is a string, a membership
  test (equality with an element) when it is a list.
\<close>

fun py_in :: "string \<Rightarrow> ade_value \<Rightarrow> bool" where
  "py_in h (AdeStr s) = str_contains h s"
| "py_in h (AdeList l) = (h \<in> set l)"

text \<open>
  \<^verbatim>\<open>b.decode("utf-8")\<close> with the default strict error handling: the well-formed byte
  sequences of the Unicode standard (no overlong forms, no surrogates, nothing above
  U+10FFFF); any other input raises \<^verbatim>\<open>UnicodeDecodeError\<close>.
\<close>

definition is_cont :: "byte \<Rightarrow> bool" where
  "is_cont b = (0x80 \<le> b \<and> b \<le> 0xBF)"

definition low6 :: "byte \<Rightarrow> nat" where
  "low6 b = unat b mod 64"

definition emit :: "nat \<Rightarrow> exn + ustr \<Rightarrow> exn + ustr" where
  "emit cp r = (case r of Inl e \<Rightarrow> Inl e | Inr s \<Rightarrow> Inr (cp # s))"

fun utf8_decode :: "bytes \<Rightarrow> exn + ustr" where
  "utf8_decode [] = Inr []"
| "utf8_decode (b # bs) =
     (if b \<le> 0x7F then emit (unat b) (utf8_decode bs)
      else if 0xC2 \<le> b \<and> b \<le> 0xDF then
        (case bs of
           c1 # r \<Rightarrow>
             if is_cont c1
             then emit ((unat b mod 32) * 64 + low6 c1) (utf8_decode r)
             else Inl UnicodeDecodeError
         | _ \<Rightarrow> Inl UnicodeDecodeError)
      else if 0xE0 \<le> b \<and> b \<le> 0xEF then
        (case bs of
           c1 # c2 # r \<Rightarrow>
             if (if b = 0xE0 then 0xA0 else 0x80) \<le> c1
                \<and> c1 \<le> (if b = 0xED then 0x9F else 0xBF) \<and> is_cont c2
             then emit ((unat b mod 16) * 4096 + low6 c1 * 64 + low6 c2) (utf8_decode r)
             else Inl UnicodeDecodeError
         | _ \<Rightarrow> Inl UnicodeDecodeError)
      else if 0xF0 \<le> b \<and> b \<le> 0xF4 then
        (case bs of
           c1 # c2 # c3 # r \<Rightarrow>
             if (if b = 0xF0 then 0x90 else 0x80) \<le> c1
                \<and> c1 \<le> (if b = 0xF4 then 0x8F else 0xBF) \<and> is_cont c2 \<and> is_cont c3
             then emit ((unat b mod 8) * 262144 + low6 c1 * 4096 + low6 c2 * 64 + low6 c3)
                    (utf8_decode r)
             else Inl UnicodeDecodeError
         | _ \<Rightarrow> Inl UnicodeDecodeError)
      else Inl UnicodeDecodeError)"

section \<open>Environment resolution\<close>

text \<open>
  The body of \<^verbatim>\<open>get_maap_config\<close>. Its first argument is what \<^verbatim>\<open>open\<close> and
  \<^verbatim>\<open>json.load\<close> give at the moment of the call: an exception, or the list of
  environments. \<^verbatim>\<open>next((x for x in data if p(x)), None)\<close> is \<^const>\<open>find\<close>.
\<close>

definition get_maap_config_body ::
  "exn + environment list \<Rightarrow> string \<Rightarrow> exn + environment option" where
  "get_maap_config_body file h =
     (case file of
        Inl e \<Rightarrow> Inl e
      | Inr data \<Rightarrow>
          (let match = find (\<lambda>x. py_in h (ade_server x)) data;
               maap_config =
                 (if match = None then find (\<lambda>x. default_host x = True) data else match)
           in Inr maap_config))"

text \<open>
  \<^verbatim>\<open>@functools.lru_cache(maxsize=128)\<close>: results are kept per argument, most recently
  used first. A hit returns the stored result and moves it to the front; a miss runs
  the body, stores a returned result and drops the least recently used entry beyond
  128; an exception is not stored.
\<close>

type_synonym lru = "(string \<times> environment option) list"

definition get_maap_config ::
  "exn + environment list \<Rightarrow> string \<Rightarrow> lru \<Rightarrow> (exn + environment option) \<times> lru" where
  "get_maap_config file h cache =
     (case map_of cache h of
        Some r \<Rightarrow> (Inr r, (h, r) # filter (\<lambda>kv. fst kv \<noteq> h) cache)
      | None \<Rightarrow>
          (case get_maap_config_body file h of
             Inl e \<Rightarrow> (Inl e, cache)
           | Inr r \<Rightarrow> (Inr r, take 128 ((h, r) # cache))))"

text \<open>\<^verbatim>\<open>get_maap_config(host)['api_server']\<close>; subscripting \<^verbatim>\<open>None\<close> raises \<^verbatim>\<open>TypeError\<close>.\<close>

definition maap_api ::
  "exn + environment list \<Rightarrow> string \<Rightarrow> lru \<Rightarrow> (exn + string) \<times> lru" where
  "maap_api file h cache =
     (case get_maap_config file h cache of
        (Inl e, cache') \<Rightarrow> (Inl e, cache')
      | (Inr None, cache') \<Rightarrow> (Inl TypeError, cache')
      | (Inr (Some cfg), cache') \<Rightarrow> (Inr (api_server cfg), cache'))"

section \<open>Request parameters\<close>

text \<open>
  \<^verbatim>\<open>parse_params\<close>: the loop over \<^verbatim>\<open>args.items()\<close> in insertion order. \<^verbatim>\<open>value[0]\<close> on an
  empty list raises \<^verbatim>\<open>IndexError\<close>; \<^verbatim>\<open>decode\<close> may raise.
\<close>

fun parse_params_loop ::
  "(string \<times> bytes list) list \<Rightarrow> (string \<rightharpoonup> ustr) \<Rightarrow> exn + (string \<rightharpoonup> ustr)" where
  "parse_params_loop [] params = Inr params"
| "parse_params_loop ((key, val) # rest) params =
     (case val of
        [] \<Rightarrow> Inl IndexError
      | v0 # _ \<Rightarrow>
          (case utf8_decode v0 of
             Inl e \<Rightarrow> Inl e
           | Inr s \<Rightarrow> parse_params_loop rest (params(key \<mapsto> s))))"

definition parse_params :: "(string \<times> bytes list) list \<Rightarrow> exn + (string \<rightharpoonup> ustr)" where
  "parse_params args = parse_params_loop args Map.empty"

text \<open>\<^verbatim>\<open>params[key]\<close>: a missing key raises \<^verbatim>\<open>KeyError\<close>.\<close>

definition getitem :: "(string \<rightharpoonup> ustr) \<Rightarrow> string \<Rightarrow> exn + ustr" where
  "getitem params key = (case params key of None \<Rightarrow> Inl (KeyError key) | Some v \<Rightarrow> Inr v)"

section \<open>The remote client, requests and responses\<close>

text \<open>
  A \<^verbatim>\<open>requests.Response\<close> as the handlers read it: \<^verbatim>\<open>resp.ok\<close>, \<^verbatim>\<open>resp.status_code\<close>,
  \<^verbatim>\<open>resp.text\<close> and the result of \<^verbatim>\<open>resp.json()\<close>, which raises when the body is not JSON.
\<close>

record response =
  ok :: bool
  status_code :: int
  body_text :: string
  json :: "exn + json_value"

text \<open>
  The \<^verbatim>\<open>MAAP\<close> client object of the external library \<^verbatim>\<open>maap-py\<close>. Each method either
  raises or returns a response. \<^verbatim>\<open>submitJob\<close> is given the keyword arguments of its
  call site.
\<close>

record maap_client =
  getCapabilities :: "exn + response"
  submitJob :: "(string \<times> ustr) list \<Rightarrow> exn + response"
  deleteJob :: "ustr \<Rightarrow> exn + response"
  getJobResult :: "ustr \<Rightarrow> exn + response"
  getJobMetrics :: "ustr \<Rightarrow> exn + response"
  getJobStatus :: "ustr \<Rightarrow> exn + response"
  listJobs :: "ustr \<Rightarrow> exn + response"

text \<open>\<^verbatim>\<open>self.request\<close>: the fields the handlers read.\<close>

record request =
  host :: string
  uri :: string
  arguments :: "(string \<times> bytes list) list"

text \<open>
  What lies outside the module: the content of the configuration file and the
  constructor \<^verbatim>\<open>MAAP(api_host)\<close>.
\<close>

record world =
  config_file :: "exn + environment list"
  MAAP :: "string \<Rightarrow> exn + maap_client"

text \<open>The state of the process: the cache of \<^verbatim>\<open>get_maap_config\<close> and the records logged.\<close>

record state =
  cache :: lru
  logged :: "string list"

text \<open>
  How a call of \<^verbatim>\<open>get\<close> ends: \<^verbatim>\<open>self.finish(d)\<close> was reached with the dictionary \<^verbatim>\<open>d\<close>, or
  an exception left the method and went to the hosting server.
\<close>

datatype outcome = Finished json_value | Raised exn

definition envelope :: "int \<Rightarrow> json_value \<Rightarrow> json_value" where
  "envelope code body = JObj [(''status_code'', JNum code), (''response'', body)]"

definition sum_bind :: "exn + 'a \<Rightarrow> ('a \<Rightarrow> exn + 'b) \<Rightarrow> exn + 'b" where
  "sum_bind m f = (case m of Inl e \<Rightarrow> Inl e | Inr x \<Rightarrow> f x)"

text \<open>
  The attributes of the module \<^verbatim>\<open>logging\<close>: \<^verbatim>\<open>logging.ERROR\<close> is the numeric level 40,
  \<^verbatim>\<open>logging.error\<close> is the function that writes a record. Calling a number raises
  \<^verbatim>\<open>TypeError\<close>.
\<close>

datatype logging_attr = Level int | LogFunction

definition logging_ERROR :: logging_attr where
  "logging_ERROR = Level 40"

fun call_attr :: "logging_attr \<Rightarrow> string \<Rightarrow> string list \<Rightarrow> exn + string list" where
  "call_attr (Level n) msg lg = Inl TypeError"
| "call_attr LogFunction msg lg = Inr (lg @ [msg])"

section \<open>The handlers\<close>

text \<open>
  The \<^verbatim>\<open>except:\<close> clause, the same in the seven handlers: build the message, call
  \<^verbatim>\<open>logging.ERROR(msg)\<close>, then \<^verbatim>\<open>self.finish\<close> with status 500. An exception raised
  inside the clause leaves the method.
\<close>

definition except_clause :: "request \<Rightarrow> state \<Rightarrow> outcome \<times> state" where
  "except_clause req st =
     (let msg = ''Failed to query endpoint: '' @ host req @ uri req
      in case call_attr logging_ERROR msg (logged st) of
           Inl e \<Rightarrow> (Raised e, st)
         | Inr lg \<Rightarrow> (Finished (envelope 500 (JStr msg)), st\<lparr>logged := lg\<rparr>))"

text \<open>\<^verbatim>\<open>try: ... self.finish(d) except: ...\<close> around a body that raises or gives \<^verbatim>\<open>d\<close>.\<close>

definition try_except :: "exn + json_value \<Rightarrow> request \<Rightarrow> state \<Rightarrow> outcome \<times> state" where
  "try_except body req st =
     (case body of Inr d \<Rightarrow> (Finished d, st) | Inl e \<Rightarrow> except_clause req st)"

text \<open>The \<^verbatim>\<open>if resp.ok: ... else: ...\<close> of the six handlers that branch.\<close>

definition ok_branch :: "response \<Rightarrow> exn + json_value" where
  "ok_branch resp =
     (if ok resp
      then sum_bind (json resp) (\<lambda>v. Inr (envelope (status_code resp) v))
      else Inr (envelope (status_code resp) (JStr (body_text resp))))"

definition DescribeCapabilitiesHandler_get ::
  "world \<Rightarrow> request \<Rightarrow> state \<Rightarrow> outcome \<times> state" where
  "DescribeCapabilitiesHandler_get w req st =
     (case maap_api (config_file w) (host req) (cache st) of
        (Inl e, c) \<Rightarrow> (Raised e, st\<lparr>cache := c\<rparr>)
      | (Inr api, c) \<Rightarrow>
          (case MAAP w api of
             Inl e \<Rightarrow> (Raised e, st\<lparr>cache := c\<rparr>)
           | Inr maap \<Rightarrow>
               try_except
                 (sum_bind (getCapabilities maap)
                    (\<lambda>resp. Inr (envelope (status_code resp) (JStr (body_text resp)))))
                 req (st\<lparr>cache := c\<rparr>)))"

definition SubmitJobHandler_get ::
  "world \<Rightarrow> request \<Rightarrow> state \<Rightarrow> outcome \<times> state" where
  "SubmitJobHandler_get w req st =
     (case maap_api (config_file w) (host req) (cache st) of
        (Inl e, c) \<Rightarrow> (Raised e, st\<lparr>cache := c\<rparr>)
      | (Inr api, c) \<Rightarrow>
          (case MAAP w api of
             Inl e \<Rightarrow> (Raised e, st\<lparr>cache := c\<rparr>)
           | Inr maap \<Rightarrow>
               try_except (sum_bind (submitJob maap []) ok_branch) req (st\<lparr>cache := c\<rparr>)))"

definition RevokeJobHandler_get ::
  "world \<Rightarrow> request \<Rightarrow> state \<Rightarrow> outcome \<times> state" where
  "RevokeJobHandler_get w req st =
     (case maap_api (config_file w) (host req) (cache st) of
        (Inl e, c) \<Rightarrow> (Raised e, st\<lparr>cache := c\<rparr>)
      | (Inr api, c) \<Rightarrow>
          (case MAAP w api of
             Inl e \<Rightarrow> (Raised e, st\<lparr>cache := c\<rparr>)
           | Inr maap \<Rightarrow>
               (case parse_params (arguments req) of
                  Inl e \<Rightarrow> (Raised e, st\<lparr>cache := c\<rparr>)
                | Inr params \<Rightarrow>
                    try_except
                      (sum_bind (getitem params ''job_id'')
                         (\<lambda>j. sum_bind (deleteJob maap j) ok_branch))
                      req (st\<lparr>cache := c\<rparr>))))"

definition JobResultHandler_get ::
  "world \<Rightarrow> request \<Rightarrow> state \<Rightarrow> outcome \<times> state" where
  "JobResultHandler_get w req st =
     (case maap_api (config_file w) (host req) (cache st) of
        (Inl e, c) \<Rightarrow> (Raised e, st\<lparr>cache := c\<rparr>)
      | (Inr api, c) \<Rightarrow>
          (case MAAP w api of
             Inl e \<Rightarrow> (Raised e, st\<lparr>cache := c\<rparr>)
           | Inr maap \<Rightarrow>
               (case parse_params (arguments req) of
                  Inl e \<Rightarrow> (Raised e, st\<lparr>cache := c\<rparr>)
                | Inr params \<Rightarrow>
                    try_except
                      (sum_bind (getitem params ''job_id'')
                         (\<lambda>j. sum_bind (getJobResult maap j) ok_branch))
                      req (st\<lparr>cache := c\<rparr>))))"

definition JobMetricsHandler_get ::
  "world \<Rightarrow> request \<Rightarrow> state \<Rightarrow> outcome \<times> state" where
  "JobMetricsHandler_get w req st =
     (case maap_api (config_file w) (host req) (cache st) of
        (Inl e, c) \<Rightarrow> (Raised e, st\<lparr>cache := c\<rparr>)
      | (Inr api, c) \<Rightarrow>
          (case MAAP w api of
             Inl e \<Rightarrow> (Raised e, st\<lparr>cache := c\<rparr>)
           | Inr maap \<Rightarrow>
               (case parse_params (arguments req) of
                  Inl e \<Rightarrow> (Raised e, st\<lparr>cache := c\<rparr>)
                | Inr params \<Rightarrow>
                    try_except
                      (sum_bind (getitem params ''job_id'')
                         (\<lambda>j. sum_bind (getJobMetrics maap j) ok_branch))
                      req (st\<lparr>cache := c\<rparr>))))"

definition JobStatusHandler_get ::
  "world \<Rightarrow> request \<Rightarrow> state \<Rightarrow> outcome \<times> state" where
  "JobStatusHandler_get w req st =
     (case maap_api (config_file w) (host req) (cache st) of
        (Inl e, c) \<Rightarrow> (Raised e, st\<lparr>cache := c\<rparr>)
      | (Inr api, c) \<Rightarrow>
          (case MAAP w api of
             Inl e \<Rightarrow> (Raised e, st\<lparr>cache := c\<rparr>)
           | Inr maap \<Rightarrow>
               (case parse_params (arguments req) of
                  Inl e \<Rightarrow> (Raised e, st\<lparr>cache := c\<rparr>)
                | Inr params \<Rightarrow>
                    try_except
                      (sum_bind (getitem params ''job_id'')
                         (\<lambda>j. sum_bind (getJobStatus maap j) ok_branch))
                      req (st\<lparr>cache := c\<rparr>))))"

definition ListJobsHandler_get ::
  "world \<Rightarrow> request \<Rightarrow> state \<Rightarrow> outcome \<times> state" where
  "ListJobsHandler_get w req st =
     (case maap_api (config_file w) (host req) (cache st) of
        (Inl e, c) \<Rightarrow> (Raised e, st\<lparr>cache := c\<rparr>)
      | (Inr api, c) \<Rightarrow>
          (case MAAP w api of
             Inl e \<Rightarrow> (Raised e, st\<lparr>cache := c\<rparr>)
           | Inr maap \<Rightarrow>
               (case parse_params (arguments req) of
                  Inl e \<Rightarrow> (Raised e, st\<lparr>cache := c\<rparr>)
                | Inr params \<Rightarrow>
                    try_except
                      (sum_bind (getitem params ''username'')
                         (\<lambda>u. sum_bind (listJobs maap u) ok_branch))
                      req (st\<lparr>cache := c\<rparr>))))"

section \<open>Routing\<close>

datatype handler =
    DescribeCapabilitiesHandler
  | SubmitJobHandler
  | RevokeJobHandler
  | JobResultHandler
  | JobMetricsHandler
  | JobStatusHandler
  | ListJobsHandler

text \<open>The \<^verbatim>\<open>get\<close> method of each handler class.\<close>

fun get :: "handler \<Rightarrow> world \<Rightarrow> request \<Rightarrow> state \<Rightarrow> outcome \<times> state" where
  "get DescribeCapabilitiesHandler = DescribeCapabilitiesHandler_get"
| "get SubmitJobHandler = SubmitJobHandler_get"
| "get RevokeJobHandler = RevokeJobHandler_get"
| "get JobResultHandler = JobResultHandler_get"
| "get JobMetricsHandler = JobMetricsHandler_get"
| "get JobStatusHandler = JobStatusHandler_get"
| "get ListJobsHandler = ListJobsHandler_get"

text \<open>
  \<^verbatim>\<open>setup_handlers\<close>, the only code run when the extension is loaded: it reads
  \<^verbatim>\<open>web_app.settings["base_url"]\<close> and registers the seven routes. Each route is kept as
  the arguments given to \<^verbatim>\<open>url_path_join\<close> and the handler class.
\<close>

definition setup_handlers :: "(string \<rightharpoonup> string) \<Rightarrow> exn + (string list \<times> handler) list" where
  "setup_handlers settings =
     (case settings ''base_url'' of
        None \<Rightarrow> Inl (KeyError ''base_url'')
      | Some base_url \<Rightarrow>
          Inr [([base_url, ''dps-jupyter-server-extension'', ''describeCapabilities''],
                  DescribeCapabilitiesHandler),
               ([base_url, ''dps-jupyter-server-extension'', ''submitJob''], SubmitJobHandler),
               ([base_url, ''dps-jupyter-server-extension'', ''revokeJob''], RevokeJobHandler),
               ([base_url, ''dps-jupyter-server-extension'', ''jobResult''], JobResultHandler),
               ([base_url, ''dps-jupyter-server-extension'', ''jobMetrics''], JobMetricsHandler),
               ([base_url, ''dps-jupyter-server-extension'', ''jobStatus''], JobStatusHandler),
               ([base_url, ''dps-jupyter-server-extension'', ''listJobs''], ListJobsHandler)])"

section \<open>Invariant of the cache\<close>

text \<open>
  Every stored result is what the body returns for its key on the current content of
  the configuration file. The empty cache of a fresh process satisfies it.
\<close>

definition cache_ok :: "exn + environment list \<Rightarrow> lru \<Rightarrow> bool" where
  "cache_ok file c = list_all (\<lambda>kv. get_maap_config_body file (fst kv) = Inr (snd kv)) c"

section \<open>Concrete inputs\<close>

definition env_example :: environment where
  "env_example =
     \<lparr>default_host = False, ade_server = AdeStr ''example.org'',
      api_server = ''api.example.org''\<rparr>"

definition env_listed :: environment where
  "env_listed =
     \<lparr>default_host = False, ade_server = AdeList [''example.org'', ''ade.example.net''],
      api_server = ''api.example.net''\<rparr>"

definition env_default :: environment where
  "env_default =
     \<lparr>default_host = True, ade_server = AdeStr ''ade.maap-project.org'',
      api_server = ''api.maap-project.org''\<rparr>"

definition environments :: "environment list" where
  "environments = [env_example, env_listed, env_default]"

definition json_reply :: response where
  "json_reply =
     \<lparr>ok = True, status_code = 200, body_text = ''[42]'', json = Inr (JArr [JNum 42])\<rparr>"


text \<open>A client whose every call raises, and one whose every call returns the same response.\<close>

definition failing_client :: "exn \<Rightarrow> maap_client" where
  "failing_client e =
     \<lparr>getCapabilities = Inl e, submitJob = (\<lambda>kw. Inl e), deleteJob = (\<lambda>j. Inl e),
      getJobResult = (\<lambda>j. Inl e), getJobMetrics = (\<lambda>j. Inl e),
      getJobStatus = (\<lambda>j. Inl e), listJobs = (\<lambda>u. Inl e)\<rparr>"

definition answering_client :: "response \<Rightarrow> maap_client" where
  "answering_client resp =
     \<lparr>getCapabilities = Inr resp, submitJob = (\<lambda>kw. Inr resp), deleteJob = (\<lambda>j. Inr resp),
      getJobResult = (\<lambda>j. Inr resp), getJobMetrics = (\<lambda>j. Inr resp),
      getJobStatus = (\<lambda>j. Inr resp), listJobs = (\<lambda>u. Inr resp)\<rparr>"


definition world_of :: "exn + environment list \<Rightarrow> maap_client \<Rightarrow> world" where
  "world_of file client = \<lparr>config_file = file, MAAP = (\<lambda>api. Inr client)\<rparr>"

definition fresh :: state where
  "fresh = \<lparr>cache = [], logged = []\<rparr>"

text \<open>The bytes of \<^verbatim>\<open>j-1\<close> and of \<^verbatim>\<open>ann\<close>; \<^verbatim>\<open>0xFF\<close> is not valid UTF-8.\<close>

definition job_request :: request where
  "job_request =
     \<lparr>host = ''ade.maap-project.org'',
      uri = ''/dps-jupyter-server-extension/revokeJob?job_id=j-1&username=ann'',
      arguments = [(''job_id'', [ [0x6A, 0x2D, 0x31] ]), (''username'', [ [0x61, 0x6E, 0x6E] ])]\<rparr>"

definition no_job_id_request :: request where
  "no_job_id_request =
     \<lparr>host = ''ade.maap-project.org'',
      uri = ''/dps-jupyter-server-extension/revokeJob'',
      arguments = []\<rparr>"

definition bad_utf8_request :: request where
  "bad_utf8_request =
     \<lparr>host = ''ade.maap-project.org'',
      uri = ''/dps-jupyter-server-extension/revokeJob?job_id=%FF'',
      arguments = [(''job_id'', [ [0xFF] ])]\<rparr>"


section \<open>Facts about the primitives\<close>

text \<open>\<^const>\<open>str_contains\<close> is the substring relation.\<close>

lemma str_contains_iff: "str_contains sub s \<longleftrightarrow> (\<exists>p q. s = p @ sub @ q)"
proof (induction s)
  case Nil
  then show ?case by simp
next
  case (Cons c s)
  show ?case
  proof
    assume "str_contains sub (c # s)"
    then consider "prefix sub (c # s)" | "str_contains sub s" by auto
    then show "\<exists>p q. c # s = p @ sub @ q"
    proof cases
      case 1
      then obtain q where "c # s = sub @ q" by (auto simp: prefix_def)
      then have "c # s = [] @ sub @ q" by simp
      then show ?thesis by blast
    next
      case 2
      with Cons.IH obtain p q where "s = p @ sub @ q" by blast
      then have "c # s = (c # p) @ sub @ q" by simp
      then show ?thesis by blast
    qed
  next
    assume "\<exists>p q. c # s = p @ sub @ q"
    then obtain p q where pq: "c # s = p @ sub @ q" by blast
    show "str_contains sub (c # s)"
    proof (cases p)
      case Nil
      with pq have "prefix sub (c # s)" by (simp add: prefix_def)
      then show ?thesis by simp
    next
      case (Cons a p')
      with pq have "s = p' @ sub @ q" by simp
      with Cons.IH have "str_contains sub s" by blast
      then show ?thesis by simp
    qed
  qed
qed

text \<open>
  Under the invariant the cached function returns what its body returns, and it keeps
  the invariant.
\<close>

lemma get_maap_config_hit:
  "cache_ok file c \<Longrightarrow> fst (get_maap_config file h c) = get_maap_config_body file h"
proof (cases "map_of c h")
  case None
  then show ?thesis by (simp add: get_maap_config_def split: sum.splits)
next
  case (Some r)
  assume ok: "cache_ok file c"
  from Some have "(h, r) \<in> set c" by (rule map_of_SomeD)
  with ok have "get_maap_config_body file h = Inr r"
    by (auto simp: cache_ok_def list_all_iff)
  with Some show ?thesis by (simp add: get_maap_config_def)
qed

lemma cache_ok_get_maap_config:
  "cache_ok file c \<Longrightarrow> cache_ok file (snd (get_maap_config file h c))"
proof (cases "map_of c h")
  case None
  assume ok: "cache_ok file c"
  show ?thesis
  proof (cases "get_maap_config_body file h")
    case (Inl e)
    with None ok show ?thesis by (simp add: get_maap_config_def)
  next
    case (Inr r)
    have "set (take 128 ((h, r) # c)) \<subseteq> set ((h, r) # c)" by (rule set_take_subset)
    with ok Inr have "cache_ok file (take 128 ((h, r) # c))"
      by (auto simp: cache_ok_def list_all_iff)
    with None Inr show ?thesis by (simp add: get_maap_config_def)
  qed
next
  case (Some r)
  assume ok: "cache_ok file c"
  from Some have "(h, r) \<in> set c" by (rule map_of_SomeD)
  with ok have "cache_ok file ((h, r) # filter (\<lambda>kv. fst kv \<noteq> h) c)"
    by (auto simp: cache_ok_def list_all_iff)
  with Some show ?thesis by (simp add: get_maap_config_def)
qed

text \<open>
  The \<^verbatim>\<open>except:\<close> clause never reaches \<^verbatim>\<open>self.finish\<close>: \<^verbatim>\<open>logging.ERROR(msg)\<close> raises
  first, and nothing has been logged.
\<close>

lemma except_clause_raises: "except_clause req st = (Raised TypeError, st)"
  by (simp add: except_clause_def logging_ERROR_def)

lemma try_except_Inl: "try_except (Inl e) req st = (Raised TypeError, st)"
  by (simp add: try_except_def except_clause_raises)


text \<open>When no entry contains the host and none is the default, the body returns \<^verbatim>\<open>None\<close>.\<close>

lemma get_maap_config_body_None:
  assumes "\<forall>x \<in> set data. \<not> py_in h (ade_server x) \<and> \<not> default_host x"
  shows "get_maap_config_body (Inr data) h = Inr None"
proof -
  from assms have "find (\<lambda>x. py_in h (ade_server x)) data = None"
    and "find (\<lambda>x. default_host x = True) data = None"
    by (simp_all add: find_None_iff)
  then show ?thesis by (simp add: get_maap_config_body_def)
qed

text \<open>
  The loop of \<^verbatim>\<open>parse_params\<close>, started on any dictionary \<open>m\<close>: when the keys are
  distinct and every first value decodes, it returns \<open>m\<close> extended by each key with its
  decoded first value.
\<close>

lemma parse_params_loop_ok:
  assumes "distinct (map fst args)"
    and "\<forall>kv \<in> set args. \<exists>v0 rest s. snd kv = v0 # rest \<and> utf8_decode v0 = Inr s"
  shows "\<exists>params. parse_params_loop args m = Inr params
           \<and> dom params = dom m \<union> fst ` set args
           \<and> (\<forall>k. k \<notin> fst ` set args \<longrightarrow> params k = m k)
           \<and> (\<forall>k v0 rest. (k, v0 # rest) \<in> set args \<longrightarrow>
                 (\<exists>s. params k = Some s \<and> utf8_decode v0 = Inr s))"
  using assms
proof (induction args arbitrary: m)
  case Nil
  then show ?case by simp
next
  case (Cons kv args)
  obtain k vs where kv: "kv = (k, vs)" by (cases kv)
  from Cons.prems(2) kv obtain v0 rest s where vs: "vs = v0 # rest" and dec: "utf8_decode v0 = Inr s"
    by auto
  from Cons.prems(1) kv have fresh_k: "k \<notin> fst ` set args" and dist: "distinct (map fst args)"
    by auto
  from Cons.prems(2) have rest_ok:
    "\<forall>kv \<in> set args. \<exists>v0 rest s. snd kv = v0 # rest \<and> utf8_decode v0 = Inr s"
    by simp
  from Cons.IH [OF dist rest_ok, of "m(k \<mapsto> s)"]
  obtain params where run: "parse_params_loop args (m(k \<mapsto> s)) = Inr params"
    and d: "dom params = dom (m(k \<mapsto> s)) \<union> fst ` set args"
    and keep: "\<forall>k'. k' \<notin> fst ` set args \<longrightarrow> params k' = (m(k \<mapsto> s)) k'"
    and vals: "\<forall>k' v0 rest. (k', v0 # rest) \<in> set args \<longrightarrow>
                 (\<exists>s. params k' = Some s \<and> utf8_decode v0 = Inr s)"
    by blast
  have 1: "parse_params_loop (kv # args) m = Inr params"
    using kv vs dec run by simp
  have 2: "dom params = dom m \<union> fst ` set (kv # args)"
    using d kv by auto
  have 3: "\<forall>k'. k' \<notin> fst ` set (kv # args) \<longrightarrow> params k' = m k'"
    using keep kv by auto
  have here: "params k = Some s"
    using keep fresh_k by simp
  have 4: "\<forall>k' v0' rest'. (k', v0' # rest') \<in> set (kv # args) \<longrightarrow>
                 (\<exists>s. params k' = Some s \<and> utf8_decode v0' = Inr s)"
    using vals here kv vs dec by auto
  from 1 2 3 4 show ?case by blast
qed


section \<open>What each handler does once the remote call has returned\<close>









section \<open>The concrete inputs evaluated\<close>

lemma resolve_default_host:
  "get_maap_config (Inr environments) ''ade.maap-project.org'' [] =
     (Inr (Some env_default), [(''ade.maap-project.org'', Some env_default)])"
  by (simp add: get_maap_config_def get_maap_config_body_def environments_def
      env_example_def env_listed_def env_default_def)

lemma maap_api_default_host:
  "maap_api (Inr environments) ''ade.maap-project.org'' [] =
     (Inr ''api.maap-project.org'', [(''ade.maap-project.org'', Some env_default)])"
  by (simp add: maap_api_def resolve_default_host) (simp add: env_default_def)

lemma parse_job_request:
  "parse_params (arguments job_request) =
     Inr [''job_id'' \<mapsto> [106, 45, 49], ''username'' \<mapsto> [97, 110, 110] ]"
  by (simp add: parse_params_def job_request_def emit_def)

lemma host_job_request: "host job_request = ''ade.maap-project.org''"
  by (simp add: job_request_def)

lemma host_no_job_id_request: "host no_job_id_request = ''ade.maap-project.org''"
  by (simp add: no_job_id_request_def)

lemma host_bad_utf8_request: "host bad_utf8_request = ''ade.maap-project.org''"
  by (simp add: bad_utf8_request_def)


lemma parse_bad_utf8_request: "parse_params (arguments bad_utf8_request) = Inl UnicodeDecodeError"
  by (simp add: parse_params_def bad_utf8_request_def)

lemma parse_no_job_id_request: "parse_params (arguments no_job_id_request) = Inr Map.empty"
  by (simp add: parse_params_def no_job_id_request_def)

lemma decode_e_acute: "utf8_decode [0xC3, 0xA9] = Inr [233]"
  by (simp add: is_cont_def low6_def emit_def)

lemma decode_one: "utf8_decode [0x31] = Inr [49]"
  by (simp add: emit_def)

section \<open>The claims\<close>

text \<open>
  C1. When the remote call raises, the handler should write the envelope with status
  500 and the message naming host and path, and log the failure. Evaluated on a
  \<^verbatim>\<open>revokeJob\<close> request whose remote call raises \<^verbatim>\<open>ConnectionError\<close>: the \<^verbatim>\<open>except:\<close>
  clause calls \<^verbatim>\<open>logging.ERROR\<close>, the number 40, so \<^verbatim>\<open>TypeError\<close> leaves the handler,
  no envelope is written and nothing is logged.
\<close>

theorem remote_failure_raises_type_error:
  "get RevokeJobHandler (world_of (Inr environments) (failing_client ConnectionError))
       job_request fresh
   = (Raised TypeError,
      \<lparr>cache = [(''ade.maap-project.org'', Some env_default)], logged = []\<rparr>)"
  by (simp add: RevokeJobHandler_get_def world_of_def fresh_def host_job_request
      maap_api_default_host parse_job_request getitem_def sum_bind_def failing_client_def
      try_except_Inl)



text \<open>
  C6. A \<^verbatim>\<open>revokeJob\<close> request without \<^verbatim>\<open>job_id\<close> should yield a 500 envelope whose text
  names host and path. Evaluated on such a request: \<^verbatim>\<open>params["job_id"]\<close> raises
  \<^verbatim>\<open>KeyError\<close> inside the \<^verbatim>\<open>try\<close> block, the \<^verbatim>\<open>except:\<close> clause builds the message and then
  calls \<^verbatim>\<open>logging.ERROR\<close>, so \<^verbatim>\<open>TypeError\<close> leaves the handler and no envelope is
  written.
\<close>

theorem missing_job_id_raises_type_error:
  "get RevokeJobHandler (world_of (Inr environments) (answering_client json_reply))
       no_job_id_request fresh
   = (Raised TypeError,
      \<lparr>cache = [(''ade.maap-project.org'', Some env_default)], logged = []\<rparr>)"
  by (simp add: RevokeJobHandler_get_def world_of_def fresh_def host_no_job_id_request
      maap_api_default_host parse_no_job_id_request getitem_def sum_bind_def try_except_Inl)

text \<open>
  C2, as stated: every per-request error, a value that is not valid UTF-8 included, is
  turned into an envelope and none leaves the handler. It fails on a \<^verbatim>\<open>revokeJob\<close>
  request whose \<^verbatim>\<open>job_id\<close> is the byte \<^verbatim>\<open>0xFF\<close>: \<^verbatim>\<open>parse_params\<close> runs before the \<^verbatim>\<open>try\<close>
  block, and \<^verbatim>\<open>UnicodeDecodeError\<close> leaves the handler.
\<close>

theorem undecodable_parameter_propagates:
  "fst (get RevokeJobHandler (world_of (Inr environments) (answering_client json_reply))
       bad_utf8_request fresh) = Raised UnicodeDecodeError"
  by (simp add: RevokeJobHandler_get_def world_of_def fresh_def host_bad_utf8_request
      maap_api_default_host parse_bad_utf8_request)

text \<open>
  C2, amended: in each of the five handlers that parse parameters, an error raised by
  \<^verbatim>\<open>parse_params\<close> (a value that is not valid UTF-8, an empty list of values) is not
  caught: it leaves \<^verbatim>\<open>get\<close>, and no envelope is written.
\<close>

theorem parse_error_leaves_handler:
  assumes "h \<in> {RevokeJobHandler, JobResultHandler, JobMetricsHandler, JobStatusHandler,
                ListJobsHandler}"
    and "maap_api (config_file w) (host req) (cache st) = (Inr api, c)"
    and "MAAP w api = Inr maap"
    and "parse_params (arguments req) = Inl e"
  shows "get h w req st = (Raised e, st\<lparr>cache := c\<rparr>)"
  using assms
  by (auto simp: RevokeJobHandler_get_def JobResultHandler_get_def JobMetricsHandler_get_def
      JobStatusHandler_get_def ListJobsHandler_get_def)

theorem parse_error_leaves_handler_witness:
  "get ListJobsHandler (world_of (Inr environments) (answering_client json_reply))
       bad_utf8_request fresh
   = (Raised UnicodeDecodeError,
      fresh\<lparr>cache := [(''ade.maap-project.org'', Some env_default)]\<rparr>)"
  using parse_error_leaves_handler [where h = ListJobsHandler
      and w = "world_of (Inr environments) (answering_client json_reply)"
      and req = bad_utf8_request and st = fresh and api = "''api.maap-project.org''"
      and c = "[(''ade.maap-project.org'', Some env_default)]"
      and maap = "answering_client json_reply" and e = UnicodeDecodeError]
  by (simp add: world_of_def fresh_def host_bad_utf8_request maap_api_default_host
      parse_bad_utf8_request)





text \<open>
  C8, as stated: a configuration file that cannot be loaded fails the process at its
  initialisation, not a request. It fails with a missing file: \<^verbatim>\<open>setup_handlers\<close>, which
  does not read the file, returns its routes, and the error is raised while a request
  is handled.
\<close>

theorem config_failure_at_request_time:
  "\<not> isl (setup_handlers [''base_url'' \<mapsto> ''/''])
   \<and> get DescribeCapabilitiesHandler
        (world_of (Inl FileNotFoundError) (answering_client json_reply)) job_request fresh
      = (Raised FileNotFoundError, fresh)"
  by (simp add: setup_handlers_def DescribeCapabilitiesHandler_get_def world_of_def fresh_def
      maap_api_def get_maap_config_def get_maap_config_body_def)

text \<open>
  C8, amended: a configuration file that cannot be loaded fails each request whose
  host has no cached result: the error of \<^verbatim>\<open>open\<close> or \<^verbatim>\<open>json.load\<close> leaves the handler,
  whichever the route, and the state is unchanged, so that the next request reads the
  file again.
\<close>

theorem config_failure_leaves_handler:
  assumes "config_file w = Inl e" and "map_of (cache st) (host req) = None"
  shows "get h w req st = (Raised e, st)"
  using assms
  by (cases h)
    (simp_all add: DescribeCapabilitiesHandler_get_def SubmitJobHandler_get_def
      RevokeJobHandler_get_def JobResultHandler_get_def JobMetricsHandler_get_def
      JobStatusHandler_get_def ListJobsHandler_get_def maap_api_def get_maap_config_def
      get_maap_config_body_def)

theorem config_failure_leaves_handler_witness:
  "get JobStatusHandler (world_of (Inl JSONDecodeError) (answering_client json_reply))
     job_request fresh = (Raised JSONDecodeError, fresh)"
  using config_failure_leaves_handler [where h = JobStatusHandler
      and w = "world_of (Inl JSONDecodeError) (answering_client json_reply)"
      and st = fresh and req = job_request and e = JSONDecodeError]
  by (simp add: world_of_def fresh_def)

text \<open>
  C5. \<^verbatim>\<open>parse_params\<close> on a dictionary of lists of byte strings (distinct keys, as in
  any dictionary) whose first values all exist and decode as UTF-8: it returns a
  dictionary with exactly the keys of its argument, and under each key the decoded
  first value of that key's list.
\<close>

theorem parse_params_first_values:
  assumes "distinct (map fst args)"
    and "\<forall>kv \<in> set args. \<exists>v0 rest s. snd kv = v0 # rest \<and> utf8_decode v0 = Inr s"
  shows "\<exists>params. parse_params args = Inr params
           \<and> dom params = fst ` set args
           \<and> (\<forall>k v0 rest. (k, v0 # rest) \<in> set args \<longrightarrow>
                 (\<exists>s. params k = Some s \<and> utf8_decode v0 = Inr s))"
  using parse_params_loop_ok [OF assms, of Map.empty] by (simp add: parse_params_def) blast

theorem parse_params_first_values_witness:
  "\<exists>params. parse_params [(''q'', [ [0xC3, 0xA9], [0x62] ]), (''n'', [ [0x31] ])] = Inr params
     \<and> dom params = {''q'', ''n''}
     \<and> params ''q'' = Some [233] \<and> params ''n'' = Some [49]"
proof -
  let ?args = "[(''q'', [ [0xC3, 0xA9], [0x62] ]), (''n'', [ [0x31] ])] :: (string \<times> bytes list) list"
  have d: "distinct (map fst ?args)" by simp
  have v: "\<forall>kv \<in> set ?args. \<exists>v0 rest s. snd kv = v0 # rest \<and> utf8_decode v0 = Inr s"
    by (simp add: decode_e_acute decode_one del: utf8_decode.simps)
  from parse_params_first_values [OF d v]
  obtain params where run: "parse_params ?args = Inr params"
    and keys: "dom params = fst ` set ?args"
    and vals: "\<forall>k v0 rest. (k, v0 # rest) \<in> set ?args \<longrightarrow>
                 (\<exists>s. params k = Some s \<and> utf8_decode v0 = Inr s)"
    by blast
  from vals have "\<exists>s. params ''q'' = Some s \<and> utf8_decode [0xC3, 0xA9] = Inr s"
    by (simp del: utf8_decode.simps)
  then have q: "params ''q'' = Some [233]"
    by (simp add: decode_e_acute del: utf8_decode.simps)
  from vals have "\<exists>s. params ''n'' = Some s \<and> utf8_decode [0x31] = Inr s"
    by (simp del: utf8_decode.simps)
  then have n: "params ''n'' = Some [49]"
    by (simp add: decode_one del: utf8_decode.simps)
  from keys have "dom params = {''q'', ''n''}" by simp
  with run q n show ?thesis by blast
qed

text \<open>
  C10. When no entry of the configuration contains the host and no entry is marked as
  default, \<^verbatim>\<open>get_maap_config\<close> returns \<^verbatim>\<open>None\<close> and \<^verbatim>\<open>maap_api\<close>, which subscripts that
  result, raises \<^verbatim>\<open>TypeError\<close>.
\<close>

theorem no_match_no_default:
  assumes "cache_ok (Inr data) c"
    and "\<forall>x \<in> set data. \<not> py_in h (ade_server x) \<and> \<not> default_host x"
  shows "fst (get_maap_config (Inr data) h c) = Inr None
       \<and> fst (maap_api (Inr data) h c) = Inl TypeError"
proof -
  have r: "fst (get_maap_config (Inr data) h c) = Inr None"
    using get_maap_config_hit [OF assms(1)] get_maap_config_body_None [OF assms(2)] by simp
  then have "fst (maap_api (Inr data) h c) = Inl TypeError"
    by (cases "get_maap_config (Inr data) h c") (simp add: maap_api_def)
  with r show ?thesis by simp
qed

theorem no_match_no_default_witness:
  "fst (get_maap_config (Inr [env_example, env_listed]) ''ade.maap-project.org'' []) = Inr None
   \<and> fst (maap_api (Inr [env_example, env_listed]) ''ade.maap-project.org'' []) = Inl TypeError"
  using no_match_no_default [where data = "[env_example, env_listed]"
      and h = "''ade.maap-project.org''" and c = "[]"]
  by (simp add: cache_ok_def env_example_def env_listed_def)

text \<open>
  C3, as stated: resolution returns the first entry one of whose patterns is a substring
  of the host. It fails for the host \<^verbatim>\<open>mydomain.example.org\<close>: the pattern
  \<^verbatim>\<open>example.org\<close> of the first two entries is a substring of the host, as a string and
  as a list element, yet the code tests \<^verbatim>\<open>host in x['ade_server']\<close>, finds no entry and
  returns the default one.
\<close>

theorem pattern_inside_host_not_matched:
  "str_contains ''example.org'' ''mydomain.example.org''
   \<and> ade_server env_example = AdeStr ''example.org''
   \<and> ade_server env_listed = AdeList [''example.org'', ''ade.example.net'']
   \<and> fst (get_maap_config (Inr environments) ''mydomain.example.org'' []) = Inr (Some env_default)
   \<and> env_default \<noteq> env_example \<and> env_default \<noteq> env_listed"
  by (simp add: get_maap_config_def get_maap_config_body_def environments_def
      env_example_def env_listed_def env_default_def)

text \<open>
  C3, amended: resolution returns the first entry whose \<^verbatim>\<open>ade_server\<close> value contains
  the host (the host is a substring of that string, or an element of that list), and
  when no entry does, the first entry marked as default.
\<close>

theorem first_containing_entry:
  assumes "cache_ok (Inr data) c"
  shows "(i < length data \<and> py_in h (ade_server (data ! i))
            \<and> (\<forall>j<i. \<not> py_in h (ade_server (data ! j)))
          \<longrightarrow> fst (get_maap_config (Inr data) h c) = Inr (Some (data ! i)))
       \<and> ((\<forall>x \<in> set data. \<not> py_in h (ade_server x))
            \<and> i < length data \<and> default_host (data ! i) \<and> (\<forall>j<i. \<not> default_host (data ! j))
          \<longrightarrow> fst (get_maap_config (Inr data) h c) = Inr (Some (data ! i)))
       \<and> py_in h (AdeStr s) = (\<exists>p q. s = p @ h @ q)
       \<and> py_in h (AdeList l) = (h \<in> set l)"
proof -
  have body: "fst (get_maap_config (Inr data) h c) = get_maap_config_body (Inr data) h"
    by (rule get_maap_config_hit [OF assms])
  have a: "fst (get_maap_config (Inr data) h c) = Inr (Some (data ! i))"
    if "i < length data" "py_in h (ade_server (data ! i))"
      "\<forall>j<i. \<not> py_in h (ade_server (data ! j))"
  proof -
    from that have "find (\<lambda>x. py_in h (ade_server x)) data = Some (data ! i)"
      by (auto simp: find_Some_iff)
    then show ?thesis by (simp add: body get_maap_config_body_def)
  qed
  have b: "fst (get_maap_config (Inr data) h c) = Inr (Some (data ! i))"
    if "\<forall>x \<in> set data. \<not> py_in h (ade_server x)" "i < length data" "default_host (data ! i)"
      "\<forall>j<i. \<not> default_host (data ! j)"
  proof -
    from that(1) have "find (\<lambda>x. py_in h (ade_server x)) data = None"
      by (simp add: find_None_iff)
    moreover from that(2-4) have "find (\<lambda>x. default_host x = True) data = Some (data ! i)"
      by (auto simp: find_Some_iff)
    ultimately show ?thesis by (simp add: body get_maap_config_body_def)
  qed
  from a b show ?thesis by (simp add: str_contains_iff)
qed

theorem first_containing_entry_witness:
  "fst (get_maap_config (Inr environments) ''example'' []) = Inr (Some env_example)
   \<and> fst (get_maap_config (Inr environments) ''mydomain.example.org'' []) = Inr (Some env_default)"
proof -
  have ok: "cache_ok (Inr environments) []" by (simp add: cache_ok_def)
  have e: "environments ! 0 = env_example" "environments ! 2 = env_default"
      "length environments = 3"
    by (simp_all add: environments_def)
  have m: "py_in ''example'' (ade_server env_example)"
    by (simp add: env_example_def)
  have n: "\<forall>x \<in> set environments. \<not> py_in ''mydomain.example.org'' (ade_server x)"
    by (simp add: environments_def env_example_def env_listed_def env_default_def)
  have dflt: "default_host env_default" "\<forall>j<2. \<not> default_host (environments ! j)"
    by (simp_all add: environments_def env_example_def env_listed_def env_default_def
        less_Suc_eq numeral_2_eq_2)
  from first_containing_entry [OF ok, where i = 0 and h = "''example''"] e m
  have 1: "fst (get_maap_config (Inr environments) ''example'' []) = Inr (Some env_example)"
    by simp
  from first_containing_entry [OF ok, where i = 2 and h = "''mydomain.example.org''"] e n dflt
  have 2: "fst (get_maap_config (Inr environments) ''mydomain.example.org'' []) = Inr (Some env_default)"
    by simp
  from 1 2 show ?thesis by simp
qed

end
